theory Spec2Isabelle
  imports Complex_Main "HOL-Library.Word"
begin

section \<open>The VESC CAN driver: command limits and the driver state machine\<close>

text \<open>
  A shallow embedding of \<^verbatim>\<open>vesc_driver/src/vesc_can_driver.cpp\<close>.

  Conventions of the embedding:
  \<^item> a command value, which arrives in a \<^verbatim>\<open>Float64\<close> message and may be any
    \<^verbatim>\<open>double\<close>, is a \<open>double\<close>: a real number, one of the two infinities, or NaN,
    compared as IEEE 754 compares them; rounding, overflow and the sign of zero are
    outside the model;
  \<^item> a configured value (a node parameter, a feasible bound) and a telemetry field,
    which the driver only copies, is a finite number, a \<^typ>\<open>real\<close>; so a bound of a
    limit, an \<^verbatim>\<open>std::experimental::optional<double>\<close>, is a \<^typ>\<open>real option\<close>;
  \<^item> member names lose their trailing underscore (\<^verbatim>\<open>driver_mode_\<close> is
    \<open>driver_mode\<close>);
  \<^item> the calls made on the hardware interface \<^verbatim>\<open>vesc_\<close> and the messages handed to
    the publishers are recorded, in order, in the driver state;
  \<^item> log output (\<^verbatim>\<open>RCLCPP_WARN_STREAM\<close>, \<^verbatim>\<open>RCLCPP_INFO_THROTTLE\<close>, ...) has no
    effect on the state or on a returned value and is left out.
\<close>

subsection \<open>Doubles\<close>

text \<open>
  A \<^verbatim>\<open>double\<close> and its comparisons \<^verbatim>\<open><\<close> and \<^verbatim>\<open><=\<close>: every comparison with NaN
  is false.
\<close>

datatype double = Finite real | PosInf | NegInf | NaN

fun dless :: "double \<Rightarrow> double \<Rightarrow> bool" where
  "dless (Finite a) (Finite b) = (a < b)"
| "dless (Finite a) PosInf = True"
| "dless NegInf (Finite b) = True"
| "dless NegInf PosInf = True"
| "dless x y = False"


text \<open>
  The product and the quotient of a \<^verbatim>\<open>double\<close> and a finite constant greater than
  0: NaN stays NaN and an infinity stays the same infinity.
\<close>

fun times_positive :: "double \<Rightarrow> real \<Rightarrow> double" where
  "times_positive (Finite a) c = Finite (a * c)"
| "times_positive x c = x"

fun divide_positive :: "double \<Rightarrow> real \<Rightarrow> double" where
  "divide_positive (Finite a) c = Finite (a / c)"
| "divide_positive x c = x"

subsection \<open>Node parameters\<close>

text \<open>
  \<^verbatim>\<open>rclcpp::ParameterValue\<close>, restricted to the two types the limits look at.
\<close>

datatype ParameterType = PARAMETER_NOT_SET | PARAMETER_DOUBLE

datatype ParameterValue = NotSet | DoubleValue real

fun get_type :: "ParameterValue \<Rightarrow> ParameterType" where
  "get_type NotSet = PARAMETER_NOT_SET"
| "get_type (DoubleValue d) = PARAMETER_DOUBLE"

text \<open>
  \<^verbatim>\<open>get<double>()\<close> is only ever called on a value whose type is not
  \<^verbatim>\<open>PARAMETER_NOT_SET\<close>; on an unset value rclcpp throws, which the model records as
  \<open>None\<close>.
\<close>

fun get_double :: "ParameterValue \<Rightarrow> real option" where
  "get_double NotSet = None"
| "get_double (DoubleValue d) = Some d"

text \<open>
  The values the user configured for the node (launch file, parameter file or command
  line), by parameter name. \<^verbatim>\<open>declare_parameter(name, default_value)\<close> of rclcpp
  declares the parameter and returns its value: the configured one when there is one,
  the default otherwise.
\<close>

type_synonym parameter_overrides = "string \<rightharpoonup> real"

definition declare_parameter ::
    "parameter_overrides \<Rightarrow> string \<Rightarrow> ParameterValue \<Rightarrow> ParameterValue" where
  "declare_parameter overrides pname default_value =
     (case overrides pname of
        Some d \<Rightarrow> DoubleValue d
      | None \<Rightarrow> default_value)"

subsection \<open>CommandLimit\<close>

record CommandLimit =
  name :: string
  lower :: "real option"
  upper :: "real option"

text \<open>
  An \<^verbatim>\<open>optional<double>\<close> in a condition is its \<^verbatim>\<open>operator bool\<close>: whether it holds
  a value. \<^verbatim>\<open>*opt\<close> is \<^term>\<open>the opt\<close>, and the code only takes it where the optional
  holds a value.
\<close>

fun has_value :: "real option \<Rightarrow> bool" where
  "has_value (Some x) = True"
| "has_value None = False"

text \<open>
  The comparisons of a \<^verbatim>\<open>double\<close> with an \<^verbatim>\<open>optional<double>\<close> that \<^verbatim>\<open>clip\<close>
  uses: \<^verbatim>\<open>v < opt\<close> is \<^verbatim>\<open>bool(opt) ? v < *opt : false\<close> and \<^verbatim>\<open>v > opt\<close> is
  \<^verbatim>\<open>bool(opt) ? v > *opt : true\<close>. The value \<open>v\<close> is the command, any
  \<^verbatim>\<open>double\<close>; the optional is a bound.
\<close>

fun less_optional :: "double \<Rightarrow> real option \<Rightarrow> bool" where
  "less_optional v (Some x) = dless v (Finite x)"
| "less_optional v None = False"

fun greater_optional :: "double \<Rightarrow> real option \<Rightarrow> bool" where
  "greater_optional v (Some x) = dless (Finite x) v"
| "greater_optional v None = True"

text \<open>
  The constructor, lines 267 to 346, block by block. \<open>resolve_lower\<close> is the
  block that sets \<^verbatim>\<open>lower\<close> from the parameter \<^verbatim>\<open>name + "_min"\<close> (lines 280 to 296);
  a member that no branch assigns stays unset.
\<close>

definition resolve_lower ::
    "ParameterValue \<Rightarrow> real option \<Rightarrow> real option \<Rightarrow> real option" where
  "resolve_lower param_min min_lower max_upper =
     (if get_type param_min \<noteq> PARAMETER_NOT_SET then
        (if has_value min_lower \<and> the (get_double param_min) < the min_lower then
           Some (the min_lower)
         else if has_value max_upper \<and> the (get_double param_min) > the max_upper then
           Some (the max_upper)
         else
           Some (the (get_double param_min)))
      else if has_value min_lower then
        Some (the min_lower)
      else
        None)"

text \<open>
  The block that sets \<^verbatim>\<open>upper\<close> from the parameter \<^verbatim>\<open>name + "_max"\<close> (lines 302 to
  318). It tests the feasible minimum first, as the block for \<^verbatim>\<open>lower\<close> does.
\<close>

definition resolve_upper ::
    "ParameterValue \<Rightarrow> real option \<Rightarrow> real option \<Rightarrow> real option" where
  "resolve_upper param_max min_lower max_upper =
     (if get_type param_max \<noteq> PARAMETER_NOT_SET then
        (if has_value min_lower \<and> the (get_double param_max) < the min_lower then
           Some (the min_lower)
         else if has_value max_upper \<and> the (get_double param_max) > the max_upper then
           Some (the max_upper)
         else
           Some (the (get_double param_max)))
      else if has_value max_upper then
        Some (the max_upper)
      else
        None)"

text \<open>The check for min > max (lines 321 to 328), on the two members.\<close>

definition swap_inverted :: "real option \<times> real option \<Rightarrow> real option \<times> real option" where
  "swap_inverted lu =
     (case lu of (lo, up) \<Rightarrow>
        if has_value up \<and> has_value lo \<and> the lo > the up then
          (let temp = the lo in (Some (the up), Some temp))
        else (lo, up))"

text \<open>
  The constructor as a whole. The two parameters are declared with the default value
  \<^verbatim>\<open>rclcpp::ParameterValue(0.0)\<close>.
\<close>

definition CommandLimit_ctor ::
    "parameter_overrides \<Rightarrow> string \<Rightarrow> real option \<Rightarrow> real option \<Rightarrow> CommandLimit" where
  "CommandLimit_ctor overrides str min_lower max_upper =
     (let param_min = declare_parameter overrides (str @ ''_min'') (DoubleValue 0.0);
          lower0 = resolve_lower param_min min_lower max_upper;
          param_max = declare_parameter overrides (str @ ''_max'') (DoubleValue 0.0);
          upper0 = resolve_upper param_max min_lower max_upper;
          (lower1, upper1) = swap_inverted (lower0, upper0)
      in \<lparr>name = str, lower = lower1, upper = upper1\<rparr>)"

text \<open>
  \<^verbatim>\<open>CommandLimit::clip\<close>, lines 348 to 365. On NaN both comparisons are false and
  the value is returned as it came.
\<close>

definition clip :: "CommandLimit \<Rightarrow> double \<Rightarrow> double" where
  "clip limit v =
     (if has_value (lower limit) \<and> less_optional v (lower limit) then
        Finite (the (lower limit))
      else if has_value (upper limit) \<and> greater_optional v (upper limit) then
        Finite (the (upper limit))
      else v)"

text \<open>
  The resolution of a configured bound as the specification words it, to be compared
  with the constructor. For a configured lower bound \<open>p\<close>: the feasible lower bound
  when there is one and \<open>p\<close> is below it; else the feasible upper bound when there is
  one and \<open>p\<close> exceeds it; else \<open>p\<close>.
\<close>

definition spec_resolved_lower :: "real \<Rightarrow> real option \<Rightarrow> real option \<Rightarrow> real" where
  "spec_resolved_lower p feasible_lower feasible_upper =
     (case feasible_lower of
        Some m \<Rightarrow>
          if p < m then m
          else (case feasible_upper of Some M \<Rightarrow> if p > M then M else p | None \<Rightarrow> p)
      | None \<Rightarrow> (case feasible_upper of Some M \<Rightarrow> if p > M then M else p | None \<Rightarrow> p))"

text \<open>
  The mirror image for a configured upper bound \<open>q\<close>: the feasible upper bound when
  there is one and \<open>q\<close> exceeds it; else the feasible lower bound when there is one and
  \<open>q\<close> is below it; else \<open>q\<close>.
\<close>

definition spec_resolved_upper :: "real \<Rightarrow> real option \<Rightarrow> real option \<Rightarrow> real" where
  "spec_resolved_upper q feasible_lower feasible_upper =
     (case feasible_upper of
        Some M \<Rightarrow>
          if q > M then M
          else (case feasible_lower of Some m \<Rightarrow> if q < m then m else q | None \<Rightarrow> q)
      | None \<Rightarrow> (case feasible_lower of Some m \<Rightarrow> if q < m then m else q | None \<Rightarrow> q))"

text \<open>A feasible range is well formed when its lower end is not above its upper end.\<close>

fun feasible_ordered :: "real option \<Rightarrow> real option \<Rightarrow> bool" where
  "feasible_ordered (Some m) (Some M) = (m \<le> M)"
| "feasible_ordered a b = True"

subsection \<open>Telemetry messages\<close>

text \<open>
  The fields of \<^verbatim>\<open>robosw::StampedVescState\<close> that the driver reads, and the message
  \<^verbatim>\<open>vesc_msgs::msg::VescStateStamped\<close> it publishes. Floating-point fields are
  \<^typ>\<open>real\<close>, the fault code and the controller id are integers.
\<close>

record robosw_VescState =
  voltage_input :: real
  current_motor :: real
  current_input :: real
  duty_cycle :: real
  speed :: real
  charge_drawn :: real
  charge_regen :: real
  energy_drawn :: real
  energy_regen :: real
  displacement :: real
  distance_traveled :: real
  fault_code :: int
  temperature_pcb :: real

record StampedVescState =
  state :: robosw_VescState

record VescState =
  voltage_input :: real
  current_motor :: real
  current_input :: real
  avg_id :: real
  avg_iq :: real
  duty_cycle :: real
  speed :: real
  charge_drawn :: real
  charge_regen :: real
  energy_drawn :: real
  energy_regen :: real
  displacement :: real
  distance_traveled :: real
  fault_code :: int
  pid_pos_now :: real
  controller_id :: int
  ntc_temp_mos1 :: real
  ntc_temp_mos2 :: real
  ntc_temp_mos3 :: real
  avg_vd :: real
  avg_vq :: real

text \<open>\<open>stamp\<close> is \<^verbatim>\<open>header.stamp\<close>, a clock reading in nanoseconds.\<close>

record VescStateStamped =
  stamp :: nat
  state :: VescState

subsection \<open>The driver\<close>

text \<open>
  Modelled from the spec: the header \<^verbatim>\<open>vesc_driver/vesc_can_driver.hpp\<close>, which
  declares the enumeration of driver modes, is not among the sources. The spec gives
  the enumeration as \<open>INITIALIZING, OPERATING\<close>, in this order; unscoped C++
  enumerators count from 0, and the spec records that a command callback's guard
  \<^verbatim>\<open>driver_mode_ = MODE_OPERATING\<close> always holds, which is the case exactly when
  \<^verbatim>\<open>MODE_OPERATING\<close> is not 0.
\<close>

datatype driver_mode_t = MODE_INITIALIZING | MODE_OPERATING

fun enum_value :: "driver_mode_t \<Rightarrow> int" where
  "enum_value MODE_INITIALIZING = 0"
| "enum_value MODE_OPERATING = 1"

text \<open>The conversion of an enumerator to \<^verbatim>\<open>bool\<close> in a condition.\<close>

definition to_bool :: "driver_mode_t \<Rightarrow> bool" where
  "to_bool m = (enum_value m \<noteq> 0)"

text \<open>The calls on the hardware interface \<^verbatim>\<open>vesc_\<close>.\<close>

datatype vesc_call =
    SetDutyCycle double
  | SetCurrent double
  | SetBrake double
  | SetSpeed double
  | SetPosition double
  | SetServo double

text \<open>
  The members of \<^verbatim>\<open>VescCanDriver\<close>. \<open>vesc\<close> holds the calls made on the hardware
  interface so far, \<open>state_pub\<close> and \<open>servo_sensor_pub\<close> the messages published so
  far, oldest first.
\<close>

record VescCanDriver =
  duty_cycle_limit :: CommandLimit
  current_limit :: CommandLimit
  brake_limit :: CommandLimit
  speed_limit :: CommandLimit
  position_limit :: CommandLimit
  servo_limit :: CommandLimit
  driver_mode :: driver_mode_t
  fw_version_major :: int
  fw_version_minor :: int
  driver_controller_id :: "8 word"
  state_msg_received :: bool
  vesc :: "vesc_call list"
  state_pub :: "VescStateStamped list"
  servo_sensor_pub :: "double list"

text \<open>
  \<^verbatim>\<open>declare_parameter<uint8_t>("vesc_id", 0x68)\<close>: the configured controller id, or
  the default.
\<close>

definition declare_parameter_uint8 :: "8 word option \<Rightarrow> 8 word \<Rightarrow> 8 word" where
  "declare_parameter_uint8 configured default_value =
     (case configured of Some w \<Rightarrow> w | None \<Rightarrow> default_value)"

text \<open>
  The constructor, lines 52 to 110, for a driver whose connection to the controller
  succeeds; \<open>overrides\<close> are the configured limits and \<open>vesc_id\<close> the configured
  controller id. The member \<^verbatim>\<open>controller_id_\<close> is \<open>driver_controller_id\<close> here.

  Modelled from the spec: the constructor does not initialise
  \<^verbatim>\<open>state_msg_received_\<close>, whose declaration is in the header that is not among the
  sources; the spec describes it as a latch that the telemetry-arrival notification
  sets, so it starts as \<open>False\<close>.
\<close>

definition VescCanDriver_ctor :: "parameter_overrides \<Rightarrow> 8 word option \<Rightarrow> VescCanDriver" where
  "VescCanDriver_ctor overrides vesc_id =
     \<lparr>duty_cycle_limit = CommandLimit_ctor overrides ''duty_cycle'' (Some (-1.0)) (Some 1.0),
      current_limit = CommandLimit_ctor overrides ''current'' None None,
      brake_limit = CommandLimit_ctor overrides ''brake'' None None,
      speed_limit = CommandLimit_ctor overrides ''speed'' None None,
      position_limit = CommandLimit_ctor overrides ''position'' None None,
      servo_limit = CommandLimit_ctor overrides ''servo'' (Some 0.0) (Some 1.0),
      driver_mode = MODE_INITIALIZING,
      fw_version_major = -1,
      fw_version_minor = -1,
      driver_controller_id = declare_parameter_uint8 vesc_id 0x68,
      state_msg_received = False,
      vesc = [],
      state_pub = [],
      servo_sensor_pub = []\<rparr>"

datatype error = AssertionFailed

text \<open>\<^verbatim>\<open>timerCallback\<close>, lines 125 to 149.\<close>

definition timerCallback :: "VescCanDriver \<Rightarrow> error + VescCanDriver" where
  "timerCallback d =
     (if driver_mode d = MODE_INITIALIZING then
        (if state_msg_received d then Inr (d\<lparr>driver_mode := MODE_OPERATING\<rparr>) else Inr d)
      else if driver_mode d = MODE_OPERATING then Inr d
      else Inl AssertionFailed)"

text \<open>
  \<^verbatim>\<open>VescStateUpdatedCallback\<close>, lines 151 to 185; \<open>now\<close> is the clock reading that
  \<^verbatim>\<open>now()\<close> returns.
\<close>

definition VescStateUpdatedCallback ::
    "VescCanDriver \<Rightarrow> StampedVescState \<Rightarrow> nat \<Rightarrow> VescCanDriver" where
  "VescStateUpdatedCallback d msg now =
     (let d1 = (if \<not> state_msg_received d then d\<lparr>state_msg_received := True\<rparr> else d);
          state_msg =
            \<lparr>stamp = now,
             state =
               \<lparr>voltage_input = robosw_VescState.voltage_input (StampedVescState.state msg),
                current_motor = robosw_VescState.current_motor (StampedVescState.state msg),
                current_input = robosw_VescState.current_input (StampedVescState.state msg),
                avg_id = 0,
                avg_iq = 0,
                duty_cycle = robosw_VescState.duty_cycle (StampedVescState.state msg),
                speed = robosw_VescState.speed (StampedVescState.state msg),
                charge_drawn = robosw_VescState.charge_drawn (StampedVescState.state msg),
                charge_regen = robosw_VescState.charge_regen (StampedVescState.state msg),
                energy_drawn = robosw_VescState.energy_drawn (StampedVescState.state msg),
                energy_regen = robosw_VescState.energy_regen (StampedVescState.state msg),
                displacement = robosw_VescState.displacement (StampedVescState.state msg),
                distance_traveled =
                  robosw_VescState.distance_traveled (StampedVescState.state msg),
                fault_code = robosw_VescState.fault_code (StampedVescState.state msg),
                pid_pos_now = 0,
                controller_id = 0x68,
                ntc_temp_mos1 = robosw_VescState.temperature_pcb (StampedVescState.state msg),
                ntc_temp_mos2 = robosw_VescState.temperature_pcb (StampedVescState.state msg),
                ntc_temp_mos3 = robosw_VescState.temperature_pcb (StampedVescState.state msg),
                avg_vd = 0,
                avg_vq = 0\<rparr>\<rparr>
      in d1\<lparr>state_pub := state_pub d1 @ [state_msg]\<rparr>)"

text \<open>
  The command callbacks, lines 192 to 265. The guard of each is the assignment
  \<^verbatim>\<open>driver_mode_ = MODE_OPERATING\<close>: it stores the mode, and its value, the mode
  just stored, is converted to \<^verbatim>\<open>bool\<close>.
\<close>

definition dutyCycleCallback :: "VescCanDriver \<Rightarrow> double \<Rightarrow> VescCanDriver" where
  "dutyCycleCallback d v =
     (let d1 = d\<lparr>driver_mode := MODE_OPERATING\<rparr>
      in if to_bool (driver_mode d1) then
           d1\<lparr>vesc := vesc d1 @ [SetDutyCycle (clip (duty_cycle_limit d1) v)]\<rparr>
         else d1)"

definition currentCallback :: "VescCanDriver \<Rightarrow> double \<Rightarrow> VescCanDriver" where
  "currentCallback d v =
     (let d1 = d\<lparr>driver_mode := MODE_OPERATING\<rparr>
      in if to_bool (driver_mode d1) then
           d1\<lparr>vesc := vesc d1 @ [SetCurrent (clip (current_limit d1) v)]\<rparr>
         else d1)"

definition brakeCallback :: "VescCanDriver \<Rightarrow> double \<Rightarrow> VescCanDriver" where
  "brakeCallback d v =
     (let d1 = d\<lparr>driver_mode := MODE_OPERATING\<rparr>
      in if to_bool (driver_mode d1) then
           d1\<lparr>vesc := vesc d1 @ [SetBrake (clip (brake_limit d1) v)]\<rparr>
         else d1)"

definition speedCallback :: "VescCanDriver \<Rightarrow> double \<Rightarrow> VescCanDriver" where
  "speedCallback d v =
     (let d1 = d\<lparr>driver_mode := MODE_OPERATING\<rparr>
      in if to_bool (driver_mode d1) then
           d1\<lparr>vesc := vesc d1 @ [SetSpeed (clip (speed_limit d1) v)]\<rparr>
         else d1)"

definition M_PI :: real where
  "M_PI = pi"

definition positionCallback :: "VescCanDriver \<Rightarrow> double \<Rightarrow> VescCanDriver" where
  "positionCallback d v =
     (let d1 = d\<lparr>driver_mode := MODE_OPERATING\<rparr>
      in if to_bool (driver_mode d1) then
           (let position_deg =
                  divide_positive (times_positive (clip (position_limit d1) v) 180.0) M_PI
            in d1\<lparr>vesc := vesc d1 @ [SetPosition position_deg]\<rparr>)
         else d1)"

definition servoCallback :: "VescCanDriver \<Rightarrow> double \<Rightarrow> VescCanDriver" where
  "servoCallback d v =
     (let d1 = d\<lparr>driver_mode := MODE_OPERATING\<rparr>
      in if to_bool (driver_mode d1) then
           (let servo_clipped = clip (servo_limit d1) v
            in d1\<lparr>vesc := vesc d1 @ [SetServo servo_clipped],
                  servo_sensor_pub := servo_sensor_pub d1 @ [servo_clipped]\<rparr>)
         else d1)"

subsection \<open>Sequences of callbacks\<close>

text \<open>
  The node runs its callbacks one at a time. An event is one callback invocation with
  its argument; \<open>run\<close> executes a sequence of them and stops at a failed assertion.
\<close>

datatype event =
    Tick
  | Telemetry StampedVescState nat
  | DutyCycleCmd double
  | CurrentCmd double
  | BrakeCmd double
  | SpeedCmd double
  | PositionCmd double
  | ServoCmd double

fun step :: "VescCanDriver \<Rightarrow> event \<Rightarrow> error + VescCanDriver" where
  "step d Tick = timerCallback d"
| "step d (Telemetry msg now) = Inr (VescStateUpdatedCallback d msg now)"
| "step d (DutyCycleCmd v) = Inr (dutyCycleCallback d v)"
| "step d (CurrentCmd v) = Inr (currentCallback d v)"
| "step d (BrakeCmd v) = Inr (brakeCallback d v)"
| "step d (SpeedCmd v) = Inr (speedCallback d v)"
| "step d (PositionCmd v) = Inr (positionCallback d v)"
| "step d (ServoCmd v) = Inr (servoCallback d v)"

fun run :: "VescCanDriver \<Rightarrow> event list \<Rightarrow> error + VescCanDriver" where
  "run d [] = Inr d"
| "run d (e # es) = (case step d e of Inl err \<Rightarrow> Inl err | Inr d' \<Rightarrow> run d' es)"

fun is_telemetry :: "event \<Rightarrow> bool" where
  "is_telemetry (Telemetry msg now) = True"
| "is_telemetry e = False"

text \<open>A telemetry sample for the examples below.\<close>

definition telemetry_sample :: StampedVescState where
  "telemetry_sample =
     \<lparr>StampedVescState.state =
        \<lparr>robosw_VescState.voltage_input = 24,
         robosw_VescState.current_motor = 3,
         robosw_VescState.current_input = 2,
         robosw_VescState.duty_cycle = 0,
         robosw_VescState.speed = 1500,
         robosw_VescState.charge_drawn = 10,
         robosw_VescState.charge_regen = 1,
         robosw_VescState.energy_drawn = 200,
         robosw_VescState.energy_regen = 20,
         robosw_VescState.displacement = 42,
         robosw_VescState.distance_traveled = 50,
         robosw_VescState.fault_code = 0,
         robosw_VescState.temperature_pcb = 37\<rparr>\<rparr>"

section \<open>Properties\<close>

subsection \<open>Facts about the constructor of a limit\<close>

lemma declare_parameter_double:
  "declare_parameter ov k (DoubleValue x) = DoubleValue (case ov k of Some d \<Rightarrow> d | None \<Rightarrow> x)"
  by (simp add: declare_parameter_def split: option.splits)

lemma resolve_lower_double:
  "resolve_lower (DoubleValue p) a b = Some (spec_resolved_lower p a b)"
  by (cases a; cases b) (simp_all add: resolve_lower_def spec_resolved_lower_def)

lemma resolve_upper_double:
  "resolve_upper (DoubleValue q) a b = Some (spec_resolved_lower q a b)"
  by (cases a; cases b) (simp_all add: resolve_upper_def spec_resolved_lower_def)

lemma spec_resolved_upper_ordered:
  "feasible_ordered a b \<Longrightarrow> spec_resolved_upper q a b = spec_resolved_lower q a b"
  by (cases a; cases b) (auto simp: spec_resolved_upper_def spec_resolved_lower_def)

lemma swap_inverted_Some:
  "swap_inverted (Some x, Some y) = (Some (min x y), Some (max x y))"
  by (simp add: swap_inverted_def min_def max_def)

lemma CommandLimit_ctor_eq:
  "CommandLimit_ctor ov str a b =
     \<lparr>name = str,
      lower = Some (min (spec_resolved_lower (case ov (str @ ''_min'') of Some d \<Rightarrow> d | None \<Rightarrow> 0) a b)
                        (spec_resolved_lower (case ov (str @ ''_max'') of Some d \<Rightarrow> d | None \<Rightarrow> 0) a b)),
      upper = Some (max (spec_resolved_lower (case ov (str @ ''_min'') of Some d \<Rightarrow> d | None \<Rightarrow> 0) a b)
                        (spec_resolved_lower (case ov (str @ ''_max'') of Some d \<Rightarrow> d | None \<Rightarrow> 0) a b))\<rparr>"
  by (simp add: CommandLimit_ctor_def declare_parameter_double resolve_lower_double
      resolve_upper_double swap_inverted_Some)

lemma CommandLimit_ctor_members:
  "\<exists>lo hi. CommandLimit_ctor ov str a b = \<lparr>name = str, lower = Some lo, upper = Some hi\<rparr>
     \<and> lo \<le> hi"
proof -
  have "min x y \<le> max x y" for x y :: real by simp
  then show ?thesis
    by (subst CommandLimit_ctor_eq) blast
qed

lemma clip_Some_Some:
  "lower L = Some lo \<Longrightarrow> upper L = Some hi \<Longrightarrow>
     clip L v =
       (if dless v (Finite lo) then Finite lo else if dless (Finite hi) v then Finite hi else v)"
  by (simp add: clip_def)

lemma clip_NaN: "clip L NaN = NaN"
  by (cases "lower L"; cases "upper L") (simp_all add: clip_def)


lemma servo_min_scenario:
  "clip (CommandLimit_ctor [''servo_min'' \<mapsto> 0.2, ''servo_max'' \<mapsto> 1] ''servo'' (Some 0) (Some 1))
      (Finite 0.05)
     = Finite 0.2"
  by (simp add: CommandLimit_ctor_eq spec_resolved_lower_def clip_def)

subsection \<open>The claims about the limits\<close>







text \<open>
  Claim C5. On every constructed limit \<open>clip\<close> is idempotent.
\<close>

theorem clip_idempotent:
  "clip (CommandLimit_ctor ov str a b) (clip (CommandLimit_ctor ov str a b) v)
     = clip (CommandLimit_ctor ov str a b) v"
proof -
  obtain lo hi where c: "CommandLimit_ctor ov str a b = \<lparr>name = str, lower = Some lo, upper = Some hi\<rparr>"
    and le: "lo \<le> hi"
    using CommandLimit_ctor_members by blast
  have s: "clip (CommandLimit_ctor ov str a b) w =
      (if dless w (Finite lo) then Finite lo else if dless (Finite hi) w then Finite hi else w)"
    for w
    by (simp add: c clip_Some_Some)
  show ?thesis
    using le by (cases v) (simp_all add: s)
qed

text \<open>
  Claim C6. When the lower bound is configured as \<open>p\<close>, the block for \<^verbatim>\<open>lower\<close>
  resolves it as the specification says: the feasible lower bound when \<open>p\<close> is below
  it, else the feasible upper bound when \<open>p\<close> exceeds it, else \<open>p\<close>. The block for
  \<^verbatim>\<open>upper\<close> applies the very same procedure to the configured upper bound \<open>q\<close>,
  which on a well-formed feasible range is the mirror image. When both are configured,
  the members after the swap check are the smaller and the larger of the two resolved
  values.
\<close>

theorem ctor_resolution:
  "(ov (str @ ''_min'') = Some p \<longrightarrow>
      resolve_lower (declare_parameter ov (str @ ''_min'') (DoubleValue 0)) a b
        = Some (spec_resolved_lower p a b))
   \<and> (ov (str @ ''_max'') = Some q \<and> feasible_ordered a b \<longrightarrow>
      resolve_upper (declare_parameter ov (str @ ''_max'') (DoubleValue 0)) a b
        = Some (spec_resolved_upper q a b))
   \<and> (ov (str @ ''_max'') = Some q \<longrightarrow>
      resolve_upper (declare_parameter ov (str @ ''_max'') (DoubleValue 0)) a b
        = Some (spec_resolved_lower q a b))
   \<and> (ov (str @ ''_min'') = Some p \<and> ov (str @ ''_max'') = Some q \<longrightarrow>
      lower (CommandLimit_ctor ov str a b)
        = Some (min (spec_resolved_lower p a b) (spec_resolved_lower q a b))
      \<and> upper (CommandLimit_ctor ov str a b)
        = Some (max (spec_resolved_lower p a b) (spec_resolved_lower q a b)))"
  by (simp add: declare_parameter_double resolve_lower_double resolve_upper_double
      spec_resolved_upper_ordered CommandLimit_ctor_eq)

theorem ctor_resolution_witness:
  "resolve_lower (declare_parameter [''servo_min'' \<mapsto> 5, ''servo_max'' \<mapsto> 7] (''servo'' @ ''_min'')
      (DoubleValue 0)) (Some 0) (Some 1) = Some 1
   \<and> resolve_upper (declare_parameter [''servo_min'' \<mapsto> 5, ''servo_max'' \<mapsto> 7] (''servo'' @ ''_max'')
      (DoubleValue 0)) (Some 0) (Some 1) = Some 1
   \<and> lower (CommandLimit_ctor [''servo_min'' \<mapsto> 5, ''servo_max'' \<mapsto> 7] ''servo'' (Some 0) (Some 1))
      = Some 1
   \<and> upper (CommandLimit_ctor [''servo_min'' \<mapsto> 5, ''servo_max'' \<mapsto> 7] ''servo'' (Some 0) (Some 1))
      = Some 1"
  using ctor_resolution
    [of "[''servo_min'' \<mapsto> 5, ''servo_max'' \<mapsto> 7]" "''servo''" 5 "Some 0" "Some 1" 7]
  by (simp add: spec_resolved_lower_def spec_resolved_upper_def)

text \<open>
  Claim C9, as stated, asks that on a channel without feasible bounds and without
  configured bounds \<open>clip\<close> returns 0 for every value. It does not for NaN: on the
  current limit of a driver with nothing configured, whose bounds are both 0, \<open>clip\<close>
  returns NaN for NaN.
\<close>

theorem default_bounds_pass_nan:
  "lower (current_limit (VescCanDriver_ctor Map.empty None)) = Some 0
   \<and> upper (current_limit (VescCanDriver_ctor Map.empty None)) = Some 0
   \<and> clip (current_limit (VescCanDriver_ctor Map.empty None)) NaN = NaN
   \<and> clip (current_limit (VescCanDriver_ctor Map.empty None)) NaN \<noteq> Finite 0"
  by (simp add: clip_NaN) (simp add: VescCanDriver_ctor_def CommandLimit_ctor_eq
      spec_resolved_lower_def)

text \<open>
  Claim C9, amended. Both parameters of a limit are declared with the default 0.0, so
  neither is ever of type \<^verbatim>\<open>PARAMETER_NOT_SET\<close> and both bounds are set after
  construction. For a channel without feasible bounds and without configured bounds,
  both bounds are 0 and \<open>clip\<close> returns 0 for every value other than NaN; NaN is
  returned as it came.
\<close>

theorem default_bounds_zero:
  "get_type (declare_parameter ov (str @ ''_min'') (DoubleValue 0)) \<noteq> PARAMETER_NOT_SET
   \<and> get_type (declare_parameter ov (str @ ''_max'') (DoubleValue 0)) \<noteq> PARAMETER_NOT_SET
   \<and> has_value (lower (CommandLimit_ctor ov str a b))
   \<and> has_value (upper (CommandLimit_ctor ov str a b))
   \<and> (ov (str @ ''_min'') = None \<and> ov (str @ ''_max'') = None \<longrightarrow>
        lower (CommandLimit_ctor ov str None None) = Some 0
        \<and> upper (CommandLimit_ctor ov str None None) = Some 0
        \<and> (v \<noteq> NaN \<longrightarrow> clip (CommandLimit_ctor ov str None None) v = Finite 0)
        \<and> clip (CommandLimit_ctor ov str None None) NaN = NaN)"
proof -
  have "clip \<lparr>name = str, lower = Some 0, upper = Some 0\<rparr> v = Finite 0" if "v \<noteq> NaN"
    using that by (cases v) (simp_all add: clip_def)
  then show ?thesis
    by (simp add: declare_parameter_double CommandLimit_ctor_eq spec_resolved_lower_def clip_NaN)
qed

theorem default_bounds_zero_witness:
  "lower (current_limit (VescCanDriver_ctor Map.empty None)) = Some 0
   \<and> upper (current_limit (VescCanDriver_ctor Map.empty None)) = Some 0
   \<and> clip (current_limit (VescCanDriver_ctor Map.empty None)) (Finite 12) = Finite 0
   \<and> clip (current_limit (VescCanDriver_ctor Map.empty None)) NegInf = Finite 0"
  using default_bounds_zero [of Map.empty "''current''" None None "Finite 12"]
    default_bounds_zero [of Map.empty "''current''" None None NegInf]
  by (simp add: VescCanDriver_ctor_def)

subsection \<open>Facts about the callbacks\<close>

lemma to_bool_OPERATING: "to_bool MODE_OPERATING"
  by (simp add: to_bool_def)

lemma command_callbacks_mode:
  "driver_mode (dutyCycleCallback d v) = MODE_OPERATING"
  "driver_mode (currentCallback d v) = MODE_OPERATING"
  "driver_mode (brakeCallback d v) = MODE_OPERATING"
  "driver_mode (speedCallback d v) = MODE_OPERATING"
  "driver_mode (positionCallback d v) = MODE_OPERATING"
  "driver_mode (servoCallback d v) = MODE_OPERATING"
  by (simp_all add: dutyCycleCallback_def currentCallback_def brakeCallback_def
      speedCallback_def positionCallback_def servoCallback_def to_bool_OPERATING Let_def)

lemma command_callbacks_forward:
  "vesc (dutyCycleCallback d v) = vesc d @ [SetDutyCycle (clip (duty_cycle_limit d) v)]"
  "vesc (currentCallback d v) = vesc d @ [SetCurrent (clip (current_limit d) v)]"
  "vesc (brakeCallback d v) = vesc d @ [SetBrake (clip (brake_limit d) v)]"
  "vesc (speedCallback d v) = vesc d @ [SetSpeed (clip (speed_limit d) v)]"
  "vesc (positionCallback d v)
     = vesc d @ [SetPosition (divide_positive (times_positive (clip (position_limit d) v) 180) pi)]"
  "vesc (servoCallback d v) = vesc d @ [SetServo (clip (servo_limit d) v)]"
  "servo_sensor_pub (servoCallback d v) = servo_sensor_pub d @ [clip (servo_limit d) v]"
  by (simp_all add: dutyCycleCallback_def currentCallback_def brakeCallback_def
      speedCallback_def positionCallback_def servoCallback_def to_bool_OPERATING M_PI_def
      Let_def)

lemma command_callbacks_latch:
  "state_msg_received (dutyCycleCallback d v) = state_msg_received d"
  "state_msg_received (currentCallback d v) = state_msg_received d"
  "state_msg_received (brakeCallback d v) = state_msg_received d"
  "state_msg_received (speedCallback d v) = state_msg_received d"
  "state_msg_received (positionCallback d v) = state_msg_received d"
  "state_msg_received (servoCallback d v) = state_msg_received d"
  by (simp_all add: dutyCycleCallback_def currentCallback_def brakeCallback_def
      speedCallback_def positionCallback_def servoCallback_def to_bool_OPERATING Let_def)

lemma telemetry_mode:
  "driver_mode (VescStateUpdatedCallback d msg now) = driver_mode d"
  by (simp add: VescStateUpdatedCallback_def Let_def)

lemma telemetry_latch:
  "state_msg_received (VescStateUpdatedCallback d msg now)"
  by (simp add: VescStateUpdatedCallback_def Let_def)

lemma timerCallback_total:
  "\<exists>d'. timerCallback d = Inr d'
     \<and> (driver_mode d' = MODE_OPERATING
          \<longleftrightarrow> driver_mode d = MODE_OPERATING \<or> state_msg_received d)
     \<and> state_msg_received d' = state_msg_received d"
  by (cases "driver_mode d") (simp_all add: timerCallback_def)

lemma step_total:
  "\<exists>d'. step d e = Inr d'
     \<and> (driver_mode d = MODE_OPERATING \<longrightarrow> driver_mode d' = MODE_OPERATING)
     \<and> (state_msg_received d' \<longleftrightarrow> state_msg_received d \<or> is_telemetry e)"
proof (cases e)
  case Tick
  then show ?thesis using timerCallback_total [of d] by auto
next
  case (Telemetry msg now)
  then show ?thesis by (simp add: telemetry_mode telemetry_latch)
qed (simp_all add: command_callbacks_mode command_callbacks_latch)

lemma run_total:
  "\<exists>d'. run d es = Inr d'
     \<and> (driver_mode d = MODE_OPERATING \<longrightarrow> driver_mode d' = MODE_OPERATING)
     \<and> (state_msg_received d' \<longleftrightarrow> state_msg_received d \<or> list_ex is_telemetry es)"
proof (induction es arbitrary: d)
  case Nil
  show ?case by simp
next
  case (Cons e es)
  obtain d1 where s: "step d e = Inr d1"
    and m: "driver_mode d = MODE_OPERATING \<longrightarrow> driver_mode d1 = MODE_OPERATING"
    and l: "state_msg_received d1 \<longleftrightarrow> state_msg_received d \<or> is_telemetry e"
    using step_total [of d e] by blast
  obtain d2 where r: "run d1 es = Inr d2"
    and m2: "driver_mode d1 = MODE_OPERATING \<longrightarrow> driver_mode d2 = MODE_OPERATING"
    and l2: "state_msg_received d2 \<longleftrightarrow> state_msg_received d1 \<or> list_ex is_telemetry es"
    using Cons.IH [of d1] by blast
  have "run d (e # es) = Inr d2" by (simp add: s r)
  with m m2 l l2 show ?case by auto
qed

lemma run_append:
  "run d (es1 @ es2) = (case run d es1 of Inl err \<Rightarrow> Inl err | Inr d' \<Rightarrow> run d' es2)"
  by (induction es1 arbitrary: d) (simp_all split: sum.splits)

subsection \<open>The claims about the driver\<close>

text \<open>
  Claim C8. A new driver is in \<^verbatim>\<open>MODE_INITIALIZING\<close>. The timer callback always
  returns, and leaves the driver in \<^verbatim>\<open>MODE_OPERATING\<close> exactly when it was there
  already or a telemetry sample has been received; on a driver run from its
  construction, the latch is set exactly when a telemetry callback has run. Once the
  mode is \<^verbatim>\<open>MODE_OPERATING\<close> after some sequence of callbacks, it is
  \<^verbatim>\<open>MODE_OPERATING\<close> after every continuation of that sequence, and no continuation
  fails.
\<close>

theorem mode_monotonic:
  "driver_mode (VescCanDriver_ctor ov vid) = MODE_INITIALIZING
   \<and> (\<exists>d'. timerCallback d = Inr d'
         \<and> (driver_mode d' = MODE_OPERATING
              \<longleftrightarrow> driver_mode d = MODE_OPERATING \<or> state_msg_received d))
   \<and> (\<exists>d'. run (VescCanDriver_ctor ov vid) es = Inr d'
         \<and> (state_msg_received d' \<longleftrightarrow> list_ex is_telemetry es))
   \<and> (run (VescCanDriver_ctor ov vid) es = Inr d1 \<and> driver_mode d1 = MODE_OPERATING \<longrightarrow>
        (\<exists>d2. run (VescCanDriver_ctor ov vid) (es @ es') = Inr d2
           \<and> driver_mode d2 = MODE_OPERATING))"
proof (intro conjI impI)
  show "driver_mode (VescCanDriver_ctor ov vid) = MODE_INITIALIZING"
    by (simp add: VescCanDriver_ctor_def)
  show "\<exists>d'. timerCallback d = Inr d'
         \<and> (driver_mode d' = MODE_OPERATING
              \<longleftrightarrow> driver_mode d = MODE_OPERATING \<or> state_msg_received d)"
    using timerCallback_total [of d] by blast
  have "\<not> state_msg_received (VescCanDriver_ctor ov vid)"
    by (simp add: VescCanDriver_ctor_def)
  then show "\<exists>d'. run (VescCanDriver_ctor ov vid) es = Inr d'
         \<and> (state_msg_received d' \<longleftrightarrow> list_ex is_telemetry es)"
    using run_total [of "VescCanDriver_ctor ov vid" es] by auto
next
  assume "run (VescCanDriver_ctor ov vid) es = Inr d1 \<and> driver_mode d1 = MODE_OPERATING"
  then show "\<exists>d2. run (VescCanDriver_ctor ov vid) (es @ es') = Inr d2
           \<and> driver_mode d2 = MODE_OPERATING"
    using run_total [of d1 es'] by (auto simp: run_append)
qed


theorem mode_monotonic_witness:
  "\<exists>d2. run (VescCanDriver_ctor Map.empty None)
          ([Telemetry telemetry_sample 0, Tick]
            @ [Tick, DutyCycleCmd (Finite 1), Telemetry telemetry_sample 1, PositionCmd NaN, Tick])
       = Inr d2
     \<and> driver_mode d2 = MODE_OPERATING"
proof -
  have "\<exists>d1. run (VescCanDriver_ctor Map.empty None) [Telemetry telemetry_sample 0, Tick] = Inr d1
      \<and> driver_mode d1 = MODE_OPERATING"
    by (simp add: VescCanDriver_ctor_def VescStateUpdatedCallback_def timerCallback_def Let_def)
  then obtain d1 where
    "run (VescCanDriver_ctor Map.empty None) [Telemetry telemetry_sample 0, Tick] = Inr d1
      \<and> driver_mode d1 = MODE_OPERATING"
    by blast
  then show ?thesis
    using mode_monotonic
      [of Map.empty None d1 "[Telemetry telemetry_sample 0, Tick]" d1
        "[Tick, DutyCycleCmd (Finite 1), Telemetry telemetry_sample 1, PositionCmd NaN, Tick]"]
    by blast
qed

text \<open>
  Claim C10. Whatever the state of the driver (its mode, its configured controller
  id), the telemetry callback publishes one message, whose \<open>controller_id\<close> is 0x68,
  whose \<open>avg_id\<close>, \<open>avg_iq\<close>, \<open>pid_pos_now\<close>, \<open>avg_vd\<close> and \<open>avg_vq\<close> are 0, and
  whose three MOSFET temperatures are the PCB temperature of the sample.
\<close>

theorem telemetry_republished:
  "\<exists>m. state_pub (VescStateUpdatedCallback d msg now) = state_pub d @ [m]
     \<and> controller_id (VescStateStamped.state m) = 0x68
     \<and> avg_id (VescStateStamped.state m) = 0
     \<and> avg_iq (VescStateStamped.state m) = 0
     \<and> pid_pos_now (VescStateStamped.state m) = 0
     \<and> avg_vd (VescStateStamped.state m) = 0
     \<and> avg_vq (VescStateStamped.state m) = 0
     \<and> ntc_temp_mos1 (VescStateStamped.state m)
          = robosw_VescState.temperature_pcb (StampedVescState.state msg)
     \<and> ntc_temp_mos2 (VescStateStamped.state m)
          = robosw_VescState.temperature_pcb (StampedVescState.state msg)
     \<and> ntc_temp_mos3 (VescStateStamped.state m)
          = robosw_VescState.temperature_pcb (StampedVescState.state msg)"
  by (simp add: VescStateUpdatedCallback_def Let_def)

lemma telemetry_ignores_vesc_id:
  "driver_controller_id (VescCanDriver_ctor Map.empty (Some 0x10)) = 0x10"
  "driver_mode (VescCanDriver_ctor Map.empty (Some 0x10)) = MODE_INITIALIZING"
  "map (\<lambda>m. controller_id (VescStateStamped.state m))
     (state_pub (VescStateUpdatedCallback (VescCanDriver_ctor Map.empty (Some 0x10))
        telemetry_sample 0)) = [0x68]"
  by (simp_all add: VescCanDriver_ctor_def declare_parameter_uint8_def
      VescStateUpdatedCallback_def Let_def)

lemma duty_cycle_configured:
  "duty_cycle_limit (VescCanDriver_ctor [''duty_cycle_min'' \<mapsto> -1, ''duty_cycle_max'' \<mapsto> 1] None)
     = \<lparr>name = ''duty_cycle'', lower = Some (-1), upper = Some 1\<rparr>"
  by (simp add: VescCanDriver_ctor_def CommandLimit_ctor_eq spec_resolved_lower_def)

text \<open>
  Claim C1. The claim asks that a command callback does nothing while the driver is in
  \<^verbatim>\<open>MODE_INITIALIZING\<close>. The guard of the callbacks is an assignment, so the code
  does otherwise: on a new driver, still initializing and with no call made so far, a
  duty cycle command of 0.5 reaches the hardware interface and the mode becomes
  \<^verbatim>\<open>MODE_OPERATING\<close>.
\<close>

theorem command_forwarded_while_initializing:
  "driver_mode (VescCanDriver_ctor [''duty_cycle_min'' \<mapsto> -1, ''duty_cycle_max'' \<mapsto> 1] None)
     = MODE_INITIALIZING
   \<and> vesc (VescCanDriver_ctor [''duty_cycle_min'' \<mapsto> -1, ''duty_cycle_max'' \<mapsto> 1] None) = []
   \<and> vesc (dutyCycleCallback
        (VescCanDriver_ctor [''duty_cycle_min'' \<mapsto> -1, ''duty_cycle_max'' \<mapsto> 1] None)
        (Finite 0.5))
     = [SetDutyCycle (Finite 0.5)]
   \<and> driver_mode (dutyCycleCallback
        (VescCanDriver_ctor [''duty_cycle_min'' \<mapsto> -1, ''duty_cycle_max'' \<mapsto> 1] None)
        (Finite 0.5))
     = MODE_OPERATING"
proof -
  have "clip \<lparr>name = ''duty_cycle'', lower = Some (-1), upper = Some 1\<rparr> (Finite 0.5)
      = Finite 0.5"
    by (simp add: clip_def)
  then show ?thesis
    by (simp add: command_callbacks_forward command_callbacks_mode duty_cycle_configured)
      (simp add: VescCanDriver_ctor_def)
qed

lemma no_overrides_limit:
  "CommandLimit_ctor Map.empty str a b =
     \<lparr>name = str, lower = Some (min (spec_resolved_lower 0 a b) (spec_resolved_lower 0 a b)),
      upper = Some (max (spec_resolved_lower 0 a b) (spec_resolved_lower 0 a b))\<rparr>"
  by (simp add: CommandLimit_ctor_eq)

text \<open>
  Claim C2. The claim asks that, with nothing configured, the duty cycle is clipped to
  its feasible range from -1 to 1, and that a side with neither a configured nor a
  feasible bound is not clipped. The parameters default to 0.0, so the code does
  otherwise: with nothing configured both bounds of the duty cycle limit are 0 and
  1.5, -2.0 and 0.3 are all clipped to 0; the current limit, which has no feasible
  bound, clips 5 to 0 as well.
\<close>

theorem duty_cycle_default_clips_to_zero:
  "duty_cycle_limit (VescCanDriver_ctor Map.empty None)
     = \<lparr>name = ''duty_cycle'', lower = Some 0, upper = Some 0\<rparr>
   \<and> clip (duty_cycle_limit (VescCanDriver_ctor Map.empty None)) (Finite 1.5) = Finite 0
   \<and> clip (duty_cycle_limit (VescCanDriver_ctor Map.empty None)) (Finite (-2.0)) = Finite 0
   \<and> clip (duty_cycle_limit (VescCanDriver_ctor Map.empty None)) (Finite 0.3) = Finite 0
   \<and> current_limit (VescCanDriver_ctor Map.empty None)
     = \<lparr>name = ''current'', lower = Some 0, upper = Some 0\<rparr>
   \<and> clip (current_limit (VescCanDriver_ctor Map.empty None)) (Finite 5) = Finite 0"
  by (simp add: VescCanDriver_ctor_def no_overrides_limit spec_resolved_lower_def clip_def)

text \<open>
  Claim C7. The claim asks that, with nothing configured, a position command of
  \<open>\<pi>/2\<close> is forwarded as 90 degrees, and only in \<^verbatim>\<open>MODE_OPERATING\<close>. On a new
  driver with nothing configured, still initializing, the code forwards it, and
  forwards 0: the position limit has both bounds at 0.
\<close>

theorem position_default_forwards_zero:
  "driver_mode (VescCanDriver_ctor Map.empty None) = MODE_INITIALIZING
   \<and> position_limit (VescCanDriver_ctor Map.empty None)
     = \<lparr>name = ''position'', lower = Some 0, upper = Some 0\<rparr>
   \<and> vesc (positionCallback (VescCanDriver_ctor Map.empty None) (Finite (pi / 2)))
     = [SetPosition (Finite 0)]"
proof -
  have "position_limit (VescCanDriver_ctor Map.empty None)
     = \<lparr>name = ''position'', lower = Some 0, upper = Some 0\<rparr>"
    by (simp add: VescCanDriver_ctor_def no_overrides_limit spec_resolved_lower_def)
  moreover have "clip \<lparr>name = ''position'', lower = Some 0, upper = Some 0\<rparr> (Finite (pi / 2))
      = Finite 0"
    by (simp add: clip_def)
  ultimately show ?thesis
    by (simp add: command_callbacks_forward) (simp add: VescCanDriver_ctor_def)
qed

text \<open>
  The conversion itself is as the claim describes it: with bounds of -4 and 4 radians
  configured, \<open>\<pi>/2\<close> passes the limit unchanged and is forwarded as 90 degrees.
\<close>

lemma position_conversion:
  "vesc (positionCallback
      (VescCanDriver_ctor [''position_min'' \<mapsto> -4, ''position_max'' \<mapsto> 4] None)
      (Finite (pi / 2)))
     = [SetPosition (Finite 90)]"
proof -
  let ?d = "VescCanDriver_ctor [''position_min'' \<mapsto> -4, ''position_max'' \<mapsto> 4] None"
  have "position_limit ?d = \<lparr>name = ''position'', lower = Some (-4), upper = Some 4\<rparr>"
    by (simp add: VescCanDriver_ctor_def CommandLimit_ctor_eq spec_resolved_lower_def)
  moreover have "pi / 2 \<le> 4" using pi_less_4 by linarith
  moreover have "- 4 \<le> pi / 2" using pi_gt_zero by linarith
  ultimately have c: "clip (position_limit ?d) (Finite (pi / 2)) = Finite (pi / 2)"
    by (simp add: clip_def)
  have "vesc (positionCallback ?d (Finite (pi / 2)))
      = vesc ?d
        @ [SetPosition
            (divide_positive (times_positive (clip (position_limit ?d) (Finite (pi / 2))) 180) pi)]"
    by (rule command_callbacks_forward)
  also have "\<dots> = vesc ?d @ [SetPosition (divide_positive (times_positive (Finite (pi / 2)) 180) pi)]"
    by (simp only: c)
  also have "\<dots> = [SetPosition (Finite 90)]"
    by (simp add: VescCanDriver_ctor_def)
  finally show ?thesis .
qed

end
